theory Spec2Isabelle
  imports Complex_Main
begin

section \<open>Data model\<close>

text \<open>
  One row of the prepared pandas DataFrame held in \<^verbatim>\<open>SolarAnalysis.data\<close>. The six
  numeric columns of the CSV file plus the column \<^verbatim>\<open>'Declination Angle Rad'\<close> that
  \<^verbatim>\<open>_load_and_prepare_data\<close> adds. Column values are NumPy floats; they are read
  as real numbers first, and as doubles with float64 arithmetic in the sections on
  float64 below. \<^verbatim>\<open>Month\<close> is numeric like
  the other columns (\<^verbatim>\<open>pd.to_numeric\<close>), hence also a real.
\<close>

record hourly_record =
  DHI :: real
  DNI :: real
  Clearsky_DHI :: real
  Clearsky_DNI :: real
  Declination_Angle :: real
  Month :: real
  Declination_Angle_Rad :: real

type_synonym dataframe = "hourly_record list"

text \<open>
  A CSV row after \<^verbatim>\<open>pd.to_numeric(..., errors='coerce')\<close>: a cell that does not parse
  as a number is NaN, modelled as \<open>None\<close>.
\<close>

record coerced_row =
  cell_DHI :: "real option"
  cell_DNI :: "real option"
  cell_Clearsky_DHI :: "real option"
  cell_Clearsky_DNI :: "real option"
  cell_Declination_Angle :: "real option"
  cell_Month :: "real option"

text \<open>\<^verbatim>\<open>np.radians\<close>.\<close>

definition radians :: "real \<Rightarrow> real" where
  "radians x = x * pi / 180"

section \<open>Class constants\<close>

definition LATITUDE_DEGREES :: real where
  "LATITUDE_DEGREES = 29.651949"

definition LATITUDE_RADIANS :: real where
  "LATITUDE_RADIANS = radians LATITUDE_DEGREES"

section \<open>Loading\<close>

text \<open>
  \<^verbatim>\<open>dropna(subset=numeric_cols)\<close> followed by the precomputation of the declination
  in radians, for one row: a row with a NaN in any of the six columns is dropped.
\<close>

definition prepare_row :: "coerced_row \<Rightarrow> hourly_record option" where
  "prepare_row c =
     (case (cell_DHI c, cell_DNI c, cell_Clearsky_DHI c, cell_Clearsky_DNI c,
            cell_Declination_Angle c, cell_Month c) of
        (Some dhi, Some dni, Some cdhi, Some cdni, Some decl, Some month) \<Rightarrow>
          Some \<lparr>DHI = dhi, DNI = dni, Clearsky_DHI = cdhi, Clearsky_DNI = cdni,
                Declination_Angle = decl, Month = month,
                Declination_Angle_Rad = radians decl\<rparr>
      | _ \<Rightarrow> None)"

text \<open>
  \<^verbatim>\<open>_load_and_prepare_data\<close>. The argument is what \<^verbatim>\<open>pd.read_csv\<close> and the coercion
  deliver: \<open>None\<close> when an exception is raised (file not found, or any other fault; both
  handlers return \<^verbatim>\<open>None\<close>), the coerced rows otherwise.
\<close>

definition load_and_prepare_data :: "coerced_row list option \<Rightarrow> dataframe option" where
  "load_and_prepare_data csv =
     (case csv of
        None \<Rightarrow> None
      | Some rows \<Rightarrow> Some (List.map_filter prepare_row rows))"

section \<open>GHI for a fixed tilt\<close>

text \<open>Column selection, lines 77 and 78 of \<^verbatim>\<open>calculate_ghi_for_tilt\<close>.\<close>

definition dhi_col :: "string \<Rightarrow> hourly_record \<Rightarrow> real" where
  "dhi_col sky_condition = (if sky_condition = ''cloudy'' then DHI else Clearsky_DHI)"

definition dni_col :: "string \<Rightarrow> hourly_record \<Rightarrow> real" where
  "dni_col sky_condition = (if sky_condition = ''cloudy'' then DNI else Clearsky_DNI)"

text \<open>
  \<^verbatim>\<open>self.data['Month'].isin(months)\<close>: the row mask of the month filter. The month
  numbers of the list are Python ints, compared by value with the numeric column.
\<close>

definition isin :: "real \<Rightarrow> int list \<Rightarrow> bool" where
  "isin x months = (x \<in> set (map real_of_int months))"

text \<open>
  \<^verbatim>\<open>calculate_ghi_for_tilt\<close>, statement by statement. The first argument is
  \<^verbatim>\<open>self.data\<close>. The NumPy arrays are lists, the element-wise operations are
  \<open>map\<close> and \<open>map2\<close>, \<^verbatim>\<open>np.where\<close> is the element-wise conditional and
  \<^verbatim>\<open>np.sum\<close> is \<open>sum_list\<close>.
\<close>

definition calculate_ghi_for_tilt ::
    "dataframe option \<Rightarrow> real \<Rightarrow> int list \<Rightarrow> string \<Rightarrow> real" where
  "calculate_ghi_for_tilt data tilt_degrees months sky_condition =
     (case data of
        None \<Rightarrow> 0
      | Some df \<Rightarrow>
          let df_period = filter (\<lambda>r. isin (Month r) months) df;
              df_period = filter (\<lambda>r. \<not> (dhi_col sky_condition r = 0 \<and>
                                            dni_col sky_condition r = 0)) df_period
          in if df_period = [] then 0
             else
               let panel_tilt_rad = radians tilt_degrees;
                   declination_rad = map Declination_Angle_Rad df_period;
                   dhi = map (dhi_col sky_condition) df_period;
                   dni = map (dni_col sky_condition) df_period;
                   theta_angle_rad =
                     map (\<lambda>d. LATITUDE_RADIANS - panel_tilt_rad - d) declination_rad;
                   cos_theta = map cos theta_angle_rad;
                   dni_contribution =
                     map2 (\<lambda>c d. if c > 0 then c * d else 0) cos_theta dni;
                   ghi_output = map2 (+) dhi dni_contribution
               in sum_list ghi_output)"

text \<open>
  The hourly output of one row as the specification words it: the incidence angle, the
  direct contribution that counts only when its cosine is positive, plus the diffuse
  irradiance.
\<close>

definition incidence_angle :: "real \<Rightarrow> hourly_record \<Rightarrow> real" where
  "incidence_angle tilt_degrees r =
     LATITUDE_RADIANS - radians tilt_degrees - Declination_Angle_Rad r"

definition direct_contribution :: "real \<Rightarrow> string \<Rightarrow> hourly_record \<Rightarrow> real" where
  "direct_contribution tilt_degrees sky_condition r =
     (if cos (incidence_angle tilt_degrees r) > 0
      then cos (incidence_angle tilt_degrees r) * dni_col sky_condition r
      else 0)"

definition hourly_output :: "real \<Rightarrow> string \<Rightarrow> hourly_record \<Rightarrow> real" where
  "hourly_output tilt_degrees sky_condition r =
     dhi_col sky_condition r + direct_contribution tilt_degrees sky_condition r"

section \<open>Tilt optimizer\<close>

text \<open>
  \<^verbatim>\<open>find_optimal_tilt\<close>. The \<^verbatim>\<open>for\<close> loop over \<^verbatim>\<open>range(0, 91)\<close> is a fold over the
  integers 0 to 90 in ascending order; the loop state is the pair of the two local
  variables, both initialised with \<open>-1\<close>. The pair is returned in the order
  \<^verbatim>\<open>(best_tilt, max_ghi)\<close>.
\<close>

definition find_optimal_tilt :: "dataframe option \<Rightarrow> int list \<Rightarrow> string \<Rightarrow> int \<times> real" where
  "find_optimal_tilt data months sky_condition =
     fold (\<lambda>tilt (best_tilt, max_ghi).
             let ghi = calculate_ghi_for_tilt data (real_of_int tilt) months sky_condition
             in if ghi > max_ghi then (tilt, ghi) else (best_tilt, max_ghi))
          [0..90] (-1, -1)"

section \<open>Sliding window\<close>

datatype py_error = IndexError | KeyError

definition month_names :: "int \<rightharpoonup> string" where
  "month_names =
     map_of [(1, ''Jan''), (2, ''Feb''), (3, ''Mar''), (4, ''Apr''), (5, ''May''),
             (6, ''Jun''), (7, ''Jul''), (8, ''Aug''), (9, ''Sep''), (10, ''Oct''),
             (11, ''Nov''), (12, ''Dec'')]"

text \<open>
  \<^verbatim>\<open>[(m - 1) % 12 + 1 for m in range(i, i + window_size)]\<close>. Python's \<^verbatim>\<open>%\<close> with the
  positive divisor 12 is \<open>mod\<close> on \<open>int\<close>; the range is empty when
  \<open>window_size \<le> 0\<close>.
\<close>

definition months_in_window :: "int \<Rightarrow> int \<Rightarrow> int list" where
  "months_in_window i window_size =
     map (\<lambda>m. (m - 1) mod 12 + 1) [i..i + window_size - 1]"

text \<open>
  \<^verbatim>\<open>months_in_window[0]\<close> and \<^verbatim>\<open>months_in_window[-1]\<close> raise \<^verbatim>\<open>IndexError\<close> on the
  empty list; a dictionary lookup raises \<^verbatim>\<open>KeyError\<close> on a missing key.
\<close>

definition first_item :: "'a list \<Rightarrow> py_error + 'a" where
  "first_item xs = (case xs of [] \<Rightarrow> Inl IndexError | x # _ \<Rightarrow> Inr x)"

definition last_item :: "'a list \<Rightarrow> py_error + 'a" where
  "last_item xs = (if xs = [] then Inl IndexError else Inr (last xs))"

definition lookup_name :: "int \<Rightarrow> py_error + string" where
  "lookup_name m = (case month_names m of None \<Rightarrow> Inl KeyError | Some name \<Rightarrow> Inr name)"

text \<open>
  The body of the loop of \<^verbatim>\<open>analyze_sliding_window\<close> for one start month \<open>i\<close>, in
  the order of evaluation of the source: the row appended to \<^verbatim>\<open>results\<close>, or the
  exception raised. A row is the pair of its \<^verbatim>\<open>"Window"\<close> entry and its optimal
  tilt entry; the header of the second column, which is built from the sky condition,
  is not part of the model.
\<close>

definition window_row ::
    "dataframe option \<Rightarrow> int \<Rightarrow> string \<Rightarrow> int \<Rightarrow> py_error + (string \<times> int)" where
  "window_row data window_size sky_condition i =
     (let months = months_in_window i window_size
      in case first_item months of
           Inl e \<Rightarrow> Inl e
         | Inr m0 \<Rightarrow>
            (case lookup_name m0 of
               Inl e \<Rightarrow> Inl e
             | Inr start_month_name \<Rightarrow>
                (case last_item months of
                   Inl e \<Rightarrow> Inl e
                 | Inr m1 \<Rightarrow>
                    (case lookup_name m1 of
                       Inl e \<Rightarrow> Inl e
                     | Inr end_month_name \<Rightarrow>
                        (let window_name = start_month_name @ ''-'' @ end_month_name;
                             best_tilt = fst (find_optimal_tilt data months sky_condition)
                         in Inr (window_name, best_tilt))))))"

fun sliding_window_loop ::
    "dataframe option \<Rightarrow> int \<Rightarrow> string \<Rightarrow> int list \<Rightarrow> (string \<times> int) list \<Rightarrow>
     py_error + (string \<times> int) list" where
  "sliding_window_loop data window_size sky_condition [] results = Inr results"
| "sliding_window_loop data window_size sky_condition (i # rest) results =
     (case window_row data window_size sky_condition i of
        Inl e \<Rightarrow> Inl e
      | Inr row \<Rightarrow>
          sliding_window_loop data window_size sky_condition rest (results @ [row]))"

definition analyze_sliding_window ::
    "dataframe option \<Rightarrow> int \<Rightarrow> string \<Rightarrow> py_error + (string \<times> int) list" where
  "analyze_sliding_window data window_size sky_condition =
     sliding_window_loop data window_size sky_condition [1..12] []"

text \<open>The window of the specification: months \<open>((i + k - 1) mod 12) + 1\<close> for \<open>k\<close> from 0 to \<open>W - 1\<close>.\<close>

definition window_months_spec :: "int \<Rightarrow> int \<Rightarrow> int list" where
  "window_months_spec i W = map (\<lambda>k. (i + k - 1) mod 12 + 1) [0..W - 1]"

section \<open>The analyzer object and the DataFrame objects it refers to\<close>

text \<open>
  To state that a call leaves the dataset unchanged, the objects are made explicit. A
  DataFrame is an object on a heap, addressed by a reference; \<open>next_ref\<close> is the first
  reference not yet in use. The analyzer object holds its two attributes;
  \<^verbatim>\<open>self.data\<close> is \<open>None\<close> or the reference of the loaded frame.
\<close>

record heap =
  frames :: "nat \<Rightarrow> dataframe"
  next_ref :: nat

record SolarAnalysis =
  csv_file_path :: string
  self_data :: "nat option"

text \<open>Creating a new DataFrame object with the given rows.\<close>

definition new_frame :: "dataframe \<Rightarrow> heap \<Rightarrow> nat \<times> heap" where
  "new_frame rows h =
     (next_ref h, h\<lparr>frames := (frames h)(next_ref h := rows), next_ref := Suc (next_ref h)\<rparr>)"

text \<open>
  Boolean indexing \<^verbatim>\<open>df[mask]\<close> and \<^verbatim>\<open>df.copy()\<close>: both read the frame \<open>df\<close> and
  return a new DataFrame object, with the selected rows and with all rows.
\<close>

definition select_rows :: "(hourly_record \<Rightarrow> bool) \<Rightarrow> nat \<Rightarrow> heap \<Rightarrow> nat \<times> heap" where
  "select_rows keep df h = new_frame (filter keep (frames h df)) h"

definition copy_frame :: "nat \<Rightarrow> heap \<Rightarrow> nat \<times> heap" where
  "copy_frame df h = new_frame (frames h df) h"

text \<open>
  \<^verbatim>\<open>calculate_ghi_for_tilt\<close> once more, as a method of the analyzer object on the heap:
  it returns its result together with the object and the heap as the call leaves them.
\<close>

definition calculate_ghi_for_tilt_method ::
    "SolarAnalysis \<Rightarrow> real \<Rightarrow> int list \<Rightarrow> string \<Rightarrow> heap \<Rightarrow> real \<times> SolarAnalysis \<times> heap" where
  "calculate_ghi_for_tilt_method self tilt_degrees months sky_condition h =
     (case self_data self of
        None \<Rightarrow> (0, self, h)
      | Some df \<Rightarrow>
          let (selected, h) = select_rows (\<lambda>r. isin (Month r) months) df h;
              (df_period, h) = copy_frame selected h;
              (df_period, h) = select_rows (\<lambda>r. \<not> (dhi_col sky_condition r = 0 \<and>
                                                     dni_col sky_condition r = 0)) df_period h
          in if frames h df_period = [] then (0, self, h)
             else
               let panel_tilt_rad = radians tilt_degrees;
                   declination_rad = map Declination_Angle_Rad (frames h df_period);
                   dhi = map (dhi_col sky_condition) (frames h df_period);
                   dni = map (dni_col sky_condition) (frames h df_period);
                   theta_angle_rad =
                     map (\<lambda>d. LATITUDE_RADIANS - panel_tilt_rad - d) declination_rad;
                   cos_theta = map cos theta_angle_rad;
                   dni_contribution =
                     map2 (\<lambda>c d. if c > 0 then c * d else 0) cos_theta dni;
                   ghi_output = map2 (+) dhi dni_contribution
               in (sum_list ghi_output, self, h))"

text \<open>The dataset of an analyzer object: the rows of the frame it refers to.\<close>

definition dataset :: "SolarAnalysis \<Rightarrow> heap \<Rightarrow> dataframe option" where
  "dataset self h = map_option (frames h) (self_data self)"

text \<open>The reference held by the object is in use.\<close>

definition loaded :: "SolarAnalysis \<Rightarrow> heap \<Rightarrow> bool" where
  "loaded self h = (case self_data self of None \<Rightarrow> True | Some df \<Rightarrow> df < next_ref h)"

section \<open>Float64 arithmetic\<close>

text \<open>
  The definitions above read the columns and every operation on them as real numbers.
  The code computes in float64, and two comparisons of its results are decided by
  rounding. For these the computation is modelled once more in float64 arithmetic: a
  float64 operation is the exact operation followed by rounding to the nearest double,
  ties to even. A double is a real number with a significand of 53 bits; the exponent
  range of float64 is not modelled (no overflow, no subnormal numbers), nor are NaN,
  the infinities and the sign of zero.
\<close>

definition round_half_even :: "real \<Rightarrow> int" where
  "round_half_even x =
     (let n = \<lfloor>x\<rfloor>; r = x - of_int n
      in if r < 1 / 2 then n else if r > 1 / 2 then n + 1 else if even n then n else n + 1)"

text \<open>
  Rounding to a double: \<open>e\<close> is the exponent of the last of the 53 bits of the
  significand of \<open>x\<close>.
\<close>

definition float64 :: "real \<Rightarrow> real" where
  "float64 x =
     (if x = 0 then 0
      else let e = \<lfloor>log 2 \<bar>x\<bar>\<rfloor> - 52
           in of_int (round_half_even (x / 2 powr (of_int e))) * 2 powr (of_int e))"

definition fadd :: "real \<Rightarrow> real \<Rightarrow> real" where
  "fadd x y = float64 (x + y)"

definition fsub :: "real \<Rightarrow> real \<Rightarrow> real" where
  "fsub x y = float64 (x - y)"

definition fmul :: "real \<Rightarrow> real \<Rightarrow> real" where
  "fmul x y = float64 (x * y)"

text \<open>
  \<^verbatim>\<open>np.sum\<close> of a contiguous one-dimensional float64 array is NumPy's add reduction:
  the accumulator starts at the identity 0 and the pairwise sum of the array is added to
  it. The pairwise sum adds fewer than 8 elements one after the other; up to 128
  elements it keeps 8 running sums, the \<open>j\<close>-th over the elements at the indices
  \<open>j, j + 8, j + 16, \<dots>\<close> of the full blocks of 8, adds them in pairs and then adds the
  elements after the last full block; a longer array is halved, the first half a
  multiple of 8 long.
\<close>

primrec add_blocks :: "nat \<Rightarrow> real list \<Rightarrow> real list \<Rightarrow> real list" where
  "add_blocks 0 r a = r"
| "add_blocks (Suc b) r a = add_blocks b (map2 fadd r (take 8 a)) (drop 8 a)"

definition unrolled_sum :: "real list \<Rightarrow> real" where
  "unrolled_sum a =
     (let n = length a;
          r = add_blocks (n div 8 - 1) (take 8 a) (drop 8 a);
          res = fadd (fadd (fadd (r ! 0) (r ! 1)) (fadd (r ! 2) (r ! 3)))
                     (fadd (fadd (r ! 4) (r ! 5)) (fadd (r ! 6) (r ! 7)))
      in foldl fadd res (drop (n - n mod 8) a))"

function pairwise_sum :: "real list \<Rightarrow> real" where
  "pairwise_sum a =
     (if length a < 8 then foldl fadd 0 a
      else if length a \<le> 128 then unrolled_sum a
      else fadd (pairwise_sum (take (length a div 2 - length a div 2 mod 8) a))
                (pairwise_sum (drop (length a div 2 - length a div 2 mod 8) a)))"
  by pat_completeness auto
termination
  by (relation "measure length") auto

definition np_sum :: "real list \<Rightarrow> real" where
  "np_sum a = fadd 0 (pairwise_sum a)"

section \<open>The computation in float64\<close>

text \<open>
  \<^verbatim>\<open>calculate_ghi_for_tilt\<close> in float64 arithmetic, statement by statement as before.
  \<^verbatim>\<open>np.radians\<close> and \<^verbatim>\<open>np.cos\<close> are library functions whose last bits the repository
  does not determine: they are the first two arguments, and every statement holds for
  all of them. The class constant \<^verbatim>\<open>LATITUDE_RADIANS\<close> is \<^verbatim>\<open>np.radians\<close> of the
  double nearest to the literal; tilt and columns are doubles.
\<close>

definition calculate_ghi_for_tilt_f64 ::
    "(real \<Rightarrow> real) \<Rightarrow> (real \<Rightarrow> real) \<Rightarrow>
     dataframe option \<Rightarrow> real \<Rightarrow> int list \<Rightarrow> string \<Rightarrow> real" where
  "calculate_ghi_for_tilt_f64 np_radians np_cos data tilt_degrees months sky_condition =
     (case data of
        None \<Rightarrow> 0
      | Some df \<Rightarrow>
          let df_period = filter (\<lambda>r. isin (Month r) months) df;
              df_period = filter (\<lambda>r. \<not> (dhi_col sky_condition r = 0 \<and>
                                            dni_col sky_condition r = 0)) df_period
          in if df_period = [] then 0
             else
               let panel_tilt_rad = np_radians tilt_degrees;
                   declination_rad = map Declination_Angle_Rad df_period;
                   dhi = map (dhi_col sky_condition) df_period;
                   dni = map (dni_col sky_condition) df_period;
                   theta_angle_rad =
                     map (\<lambda>d. fsub (fsub (np_radians (float64 LATITUDE_DEGREES)) panel_tilt_rad) d)
                       declination_rad;
                   cos_theta = map np_cos theta_angle_rad;
                   dni_contribution =
                     map2 (\<lambda>c d. if c > 0 then fmul c d else 0) cos_theta dni;
                   ghi_output = map2 fadd dhi dni_contribution
               in np_sum ghi_output)"

text \<open>
  The variant the specification compares with: the same computation without the
  exclusion of the rows whose two irradiance values are both zero (line 83), so that
  \<^verbatim>\<open>np.sum\<close> runs over the output of every row that passes the month filter.
\<close>

definition calculate_ghi_all_rows_f64 ::
    "(real \<Rightarrow> real) \<Rightarrow> (real \<Rightarrow> real) \<Rightarrow>
     dataframe option \<Rightarrow> real \<Rightarrow> int list \<Rightarrow> string \<Rightarrow> real" where
  "calculate_ghi_all_rows_f64 np_radians np_cos data tilt_degrees months sky_condition =
     (case data of
        None \<Rightarrow> 0
      | Some df \<Rightarrow>
          let df_period = filter (\<lambda>r. isin (Month r) months) df;
              panel_tilt_rad = np_radians tilt_degrees;
              declination_rad = map Declination_Angle_Rad df_period;
              dhi = map (dhi_col sky_condition) df_period;
              dni = map (dni_col sky_condition) df_period;
              theta_angle_rad =
                map (\<lambda>d. fsub (fsub (np_radians (float64 LATITUDE_DEGREES)) panel_tilt_rad) d)
                  declination_rad;
              cos_theta = map np_cos theta_angle_rad;
              dni_contribution =
                map2 (\<lambda>c d. if c > 0 then fmul c d else 0) cos_theta dni;
              ghi_output = map2 fadd dhi dni_contribution
          in np_sum ghi_output)"

text \<open>One element of the array \<^verbatim>\<open>ghi_output\<close>: the output of one row.\<close>

definition hourly_output_f64 ::
    "(real \<Rightarrow> real) \<Rightarrow> (real \<Rightarrow> real) \<Rightarrow> real \<Rightarrow> string \<Rightarrow> hourly_record \<Rightarrow> real" where
  "hourly_output_f64 np_radians np_cos tilt_degrees sky_condition r =
     (let cos_theta =
            np_cos (fsub (fsub (np_radians (float64 LATITUDE_DEGREES)) (np_radians tilt_degrees))
                      (Declination_Angle_Rad r))
      in fadd (dhi_col sky_condition r)
              (if cos_theta > 0 then fmul cos_theta (dni_col sky_condition r) else 0))"




section \<open>Sample data\<close>

text \<open>
  A row with the given month, diffuse and direct irradiance (the same values in the
  measured and in the clear-sky columns) and declination 0.
\<close>

definition sample_row :: "real \<Rightarrow> real \<Rightarrow> real \<Rightarrow> hourly_record" where
  "sample_row month dhi dni =
     \<lparr>DHI = dhi, DNI = dni, Clearsky_DHI = dhi, Clearsky_DNI = dni,
      Declination_Angle = 0, Month = month, Declination_Angle_Rad = 0\<rparr>"

text \<open>
  An analyzer object whose dataset is the frame at reference 0, the only frame in use.
\<close>

definition sample_heap :: heap where
  "sample_heap = \<lparr>frames = (\<lambda>_. [])(0 := [sample_row 1 5 7, sample_row 2 0 0]), next_ref = 1\<rparr>"

definition sample_analyzer :: SolarAnalysis where
  "sample_analyzer = \<lparr>csv_file_path = ''2023_with_declination.csv'', self_data = Some 0\<rparr>"

text \<open>
  For the runs that are evaluated, \<^verbatim>\<open>np.radians\<close> and \<^verbatim>\<open>np.cos\<close> are taken as
  correctly rounded; the rows of these runs have no direct irradiance, so that their
  results do not depend on this choice.
\<close>

definition rounded_radians :: "real \<Rightarrow> real" where
  "rounded_radians x = float64 (radians x)"

definition rounded_cos :: "real \<Rightarrow> real" where
  "rounded_cos x = float64 (cos x)"


text \<open>
  Nine January hours, six of them without any irradiance, the others with diffuse
  irradiance 0.1, 0.1 and 0.4, as doubles.
\<close>

definition mostly_dark_hours :: "dataframe option" where
  "mostly_dark_hours =
     Some [sample_row 1 0 0, sample_row 1 (float64 (1 / 10)) 0,
           sample_row 1 (float64 (1 / 10)) 0, sample_row 1 (float64 (2 / 5)) 0,
           sample_row 1 0 0, sample_row 1 0 0, sample_row 1 0 0, sample_row 1 0 0,
           sample_row 1 0 0]"

section \<open>The vectorised computation, row by row\<close>

lemma map2_of_columns:
  "map2 f (map g rows) (map h rows) = map (\<lambda>r. f (g r) (h r)) rows"
  by (induction rows) simp_all

lemma vectorised_ghi_output:
  "map2 (+) (map (dhi_col sky) rows)
     (map2 (\<lambda>c d. if c > 0 then c * d else 0)
        (map cos (map (\<lambda>d. LATITUDE_RADIANS - radians tilt - d)
                    (map Declination_Angle_Rad rows)))
        (map (dni_col sky) rows))
   = map (hourly_output tilt sky) rows"
  by (induction rows)
     (simp_all add: hourly_output_def direct_contribution_def incidence_angle_def)

lemma hourly_output_dark:
  "dhi_col sky r = 0 \<Longrightarrow> dni_col sky r = 0 \<Longrightarrow> hourly_output tilt sky r = 0"
  by (simp add: hourly_output_def direct_contribution_def)

lemma sum_list_drop_zero_rows:
  fixes f :: "'a \<Rightarrow> real"
  assumes "\<And>x. \<not> P x \<Longrightarrow> f x = 0"
  shows "sum_list (map f (filter P xs)) = sum_list (map f xs)"
  using assms by (induction xs) simp_all

lemma calculate_ghi_for_tilt_rows:
  "calculate_ghi_for_tilt (Some df) tilt months sky =
     sum_list (map (hourly_output tilt sky) (filter (\<lambda>r. isin (Month r) months) df))"
proof -
  let ?period = "filter (\<lambda>r. isin (Month r) months) df"
  let ?lit = "filter (\<lambda>r. \<not> (dhi_col sky r = 0 \<and> dni_col sky r = 0)) ?period"
  have "calculate_ghi_for_tilt (Some df) tilt months sky =
          sum_list (map (hourly_output tilt sky) ?lit)"
    unfolding calculate_ghi_for_tilt_def Let_def vectorised_ghi_output by simp
  also have "\<dots> = sum_list (map (hourly_output tilt sky) ?period)"
    by (rule sum_list_drop_zero_rows) (auto simp: hourly_output_dark)
  finally show ?thesis .
qed

lemma calculate_ghi_for_tilt_None:
  "calculate_ghi_for_tilt None tilt months sky = 0"
  by (simp add: calculate_ghi_for_tilt_def)

section \<open>Claims about the irradiance calculator\<close>


text \<open>
  C9. Any sky-condition string other than exactly \<^verbatim>\<open>'cloudy'\<close> selects the clear-sky
  columns: the result is that of the sky condition \<^verbatim>\<open>'clear'\<close>, and no value is
  rejected.
\<close>

theorem C9_unrecognised_sky_is_clear:
  assumes "sky \<noteq> ''cloudy''"
  shows "calculate_ghi_for_tilt data t M sky = calculate_ghi_for_tilt data t M ''clear''"
proof -
  from assms have "dhi_col sky = dhi_col ''clear''" and "dni_col sky = dni_col ''clear''"
    by (simp_all add: dhi_col_def dni_col_def)
  then show ?thesis
    unfolding calculate_ghi_for_tilt_def by (simp only:)
qed

theorem C9_unrecognised_sky_is_clear_witness:
  "''Cloudy'' \<noteq> ''cloudy'' \<and>
   calculate_ghi_for_tilt
     (Some [\<lparr>DHI = 1, DNI = 2, Clearsky_DHI = 3, Clearsky_DNI = 4, Declination_Angle = 0,
             Month = 1, Declination_Angle_Rad = 0\<rparr>]) 30 [1] ''Cloudy'' =
   calculate_ghi_for_tilt
     (Some [\<lparr>DHI = 1, DNI = 2, Clearsky_DHI = 3, Clearsky_DNI = 4, Declination_Angle = 0,
             Month = 1, Declination_Angle_Rad = 0\<rparr>]) 30 [1] ''clear''"
  using C9_unrecognised_sky_is_clear [of "''Cloudy''"
          "Some [\<lparr>DHI = 1, DNI = 2, Clearsky_DHI = 3, Clearsky_DNI = 4, Declination_Angle = 0,
                  Month = 1, Declination_Angle_Rad = 0\<rparr>]" 30 "[1]"]
  by simp

text \<open>
  C10. The result depends only on the set of months in the month list: two lists with
  the same elements, in any order and with any repetitions, give the same result.
\<close>

theorem C10_months_as_a_set:
  "set M = set M' \<Longrightarrow>
     calculate_ghi_for_tilt data t M sky = calculate_ghi_for_tilt data t M' sky"
  by (cases data) (simp_all add: calculate_ghi_for_tilt_def isin_def)

theorem C10_months_as_a_set_witness:
  "set [1, 2, 2 :: int] = set [2, 1] \<and>
   calculate_ghi_for_tilt (Some [sample_row 1 5 7, sample_row 2 3 0]) 30 [1, 2, 2] ''cloudy'' =
   calculate_ghi_for_tilt (Some [sample_row 1 5 7, sample_row 2 3 0]) 30 [2, 1] ''cloudy''"
proof -
  have h: "set [1, 2, 2 :: int] = set [2, 1]"
    by auto
  from h C10_months_as_a_set [OF h] show ?thesis
    by (rule conjI)
qed

section \<open>The search loop\<close>

lemma search_invariant:
  fixes g :: "int \<Rightarrow> real"
  assumes "sorted_wrt (<) ts"
  shows "case fold (\<lambda>t (b, m). let ghi = g t in if ghi > m then (t, ghi) else (b, m)) ts (b_init, m_init) of
           (b, v) \<Rightarrow>
             m_init \<le> v \<and> (\<forall>t\<in>set ts. g t \<le> v) \<and>
             (if \<exists>t\<in>set ts. g t > m_init
              then b \<in> set ts \<and> g b = v \<and> (\<forall>t\<in>set ts. g t = v \<longrightarrow> b \<le> t)
              else (b, v) = (b_init, m_init))"
  using assms
proof (induction ts rule: rev_induct)
  case Nil
  then show ?case by simp
next
  case (snoc t ts)
  let ?step = "\<lambda>t (b, m). let ghi = g t in if ghi > m then (t, ghi) else (b, m)"
  obtain b v where bv: "fold ?step ts (b_init, m_init) = (b, v)"
    by (cases "fold ?step ts (b_init, m_init)")
  from snoc.prems have sorted: "sorted_wrt (<) ts" and above: "\<forall>x\<in>set ts. x < t"
    by (auto simp: sorted_wrt_append)
  from snoc.IH [OF sorted]
  have ih: "m_init \<le> v" "\<forall>t\<in>set ts. g t \<le> v"
    "if \<exists>t\<in>set ts. g t > m_init
     then b \<in> set ts \<and> g b = v \<and> (\<forall>t\<in>set ts. g t = v \<longrightarrow> b \<le> t)
     else (b, v) = (b_init, m_init)"
    unfolding bv by simp_all
  have "fold ?step (ts @ [t]) (b_init, m_init) = ?step t (b, v)"
    by (simp only: fold_append fold.simps o_apply id_apply bv)
  then have last_step:
    "fold ?step (ts @ [t]) (b_init, m_init) = (if g t > v then (t, g t) else (b, v))"
    by (simp add: Let_def)
  show ?case
  proof (cases "g t > v")
    case True
    with ih above show ?thesis
      unfolding last_step by (auto split: if_splits)
  next
    case False
    with ih above show ?thesis
      unfolding last_step by (fastforce split: if_splits)
  qed
qed

lemma find_optimal_tilt_invariant:
  "case find_optimal_tilt data M sky of
     (b, v) \<Rightarrow>
       -1 \<le> v \<and>
       (\<forall>t\<in>{0..90}. calculate_ghi_for_tilt data (real_of_int t) M sky \<le> v) \<and>
       (if \<exists>t\<in>{0..90}. calculate_ghi_for_tilt data (real_of_int t) M sky > -1
        then b \<in> {0..90} \<and> calculate_ghi_for_tilt data (real_of_int b) M sky = v \<and>
             (\<forall>t\<in>{0..90}. calculate_ghi_for_tilt data (real_of_int t) M sky = v \<longrightarrow> b \<le> t)
        else (b, v) = (-1, -1))"
proof -
  have "sorted_wrt (<) [0..90]"
    by simp
  from search_invariant [OF this, where b_init = "-1" and m_init = "-1"
          and g = "\<lambda>t. calculate_ghi_for_tilt data (real_of_int t) M sky"]
  show ?thesis
    unfolding find_optimal_tilt_def set_upto .
qed

lemma find_optimal_tilt_upper:
  "t \<in> {0..90} \<Longrightarrow>
     calculate_ghi_for_tilt data (real_of_int t) M sky \<le> snd (find_optimal_tilt data M sky)"
  using find_optimal_tilt_invariant [of data M sky]
  by (cases "find_optimal_tilt data M sky") auto

lemma find_optimal_tilt_lower: "-1 \<le> snd (find_optimal_tilt data M sky)"
  using find_optimal_tilt_invariant [of data M sky]
  by (cases "find_optimal_tilt data M sky") auto

lemma find_optimal_tilt_improved:
  assumes "\<exists>t\<in>{0..90}. calculate_ghi_for_tilt data (real_of_int t) M sky > -1"
  shows "fst (find_optimal_tilt data M sky) \<in> {0..90}"
    and "calculate_ghi_for_tilt data (real_of_int (fst (find_optimal_tilt data M sky))) M sky
           = snd (find_optimal_tilt data M sky)"
    and "\<And>t. t \<in> {0..90} \<Longrightarrow>
           calculate_ghi_for_tilt data (real_of_int t) M sky = snd (find_optimal_tilt data M sky) \<Longrightarrow>
           fst (find_optimal_tilt data M sky) \<le> t"
  using find_optimal_tilt_invariant [of data M sky] assms
  by (cases "find_optimal_tilt data M sky"; simp split: if_splits)+

lemma find_optimal_tilt_sentinel:
  assumes "\<forall>t\<in>{0..90}. calculate_ghi_for_tilt data (real_of_int t) M sky \<le> -1"
  shows "find_optimal_tilt data M sky = (-1, -1)"
proof -
  from assms have "\<not> (\<exists>t\<in>{0..90}. calculate_ghi_for_tilt data (real_of_int t) M sky > -1)"
    by (simp add: not_less)
  with find_optimal_tilt_invariant [of data M sky] show ?thesis
    by (cases "find_optimal_tilt data M sky") (simp split: if_splits)
qed

lemma find_optimal_tilt_constant:
  assumes "\<forall>t\<in>{0..90}. calculate_ghi_for_tilt data (real_of_int t) M sky = c"
  shows "find_optimal_tilt data M sky = (if c > -1 then (0, c) else (-1, -1))"
proof (cases "c > -1")
  case True
  let ?r = "find_optimal_tilt data M sky"
  have at: "calculate_ghi_for_tilt data (real_of_int t) M sky = c" if "t \<in> {0..90}" for t
    using assms that by blast
  have "(0::int) \<in> {0..90}"
    by simp
  with at [of 0] have at0: "calculate_ghi_for_tilt data 0 M sky = c"
    by simp
  with True have "calculate_ghi_for_tilt data (real_of_int 0) M sky > -1"
    by simp
  moreover have "(0::int) \<in> {0..90}"
    by simp
  ultimately
  have ex: "\<exists>t\<in>{0..90}. calculate_ghi_for_tilt data (real_of_int t) M sky > -1"
    by (rule bexI)
  have v: "snd ?r = c"
    using find_optimal_tilt_improved(2) [OF ex] at [OF find_optimal_tilt_improved(1) [OF ex]]
    by simp
  have "fst ?r \<le> 0"
    by (rule find_optimal_tilt_improved(3) [OF ex]) (simp_all add: v at0)
  moreover have "0 \<le> fst ?r"
    using find_optimal_tilt_improved(1) [OF ex] by simp
  ultimately have "fst ?r = 0"
    by simp
  with v True show ?thesis
    by (simp add: prod_eq_iff)
next
  case False
  with assms have "\<forall>t\<in>{0..90}. calculate_ghi_for_tilt data (real_of_int t) M sky \<le> -1"
    by simp
  from find_optimal_tilt_sentinel [OF this] False show ?thesis
    by simp
qed

section \<open>Claims about the tilt optimizer\<close>

lemma sample_row_ghi:
  "calculate_ghi_for_tilt (Some [sample_row 1 5 0]) t [1] ''cloudy'' = 5"
  by (simp add: calculate_ghi_for_tilt_rows hourly_output_def direct_contribution_def
        sample_row_def isin_def dhi_col_def dni_col_def)

text \<open>
  C3. When no row qualifies for the given months and sky condition (the frame
  \<^verbatim>\<open>df_period\<close> is empty after the month filter and the exclusion of the all-zero
  rows, as for the impossible month 13), \<^verbatim>\<open>calculate_ghi_for_tilt\<close> returns 0 for
  every tilt and \<^verbatim>\<open>find_optimal_tilt\<close> returns tilt 0 with GHI 0: the empty period is
  a defined outcome and no error.
\<close>

theorem C3_empty_period:
  assumes "filter (\<lambda>r. \<not> (dhi_col sky r = 0 \<and> dni_col sky r = 0))
             (filter (\<lambda>r. isin (Month r) M) df) = []"
  shows "calculate_ghi_for_tilt (Some df) t M sky = 0 \<and>
         find_optimal_tilt (Some df) M sky = (0, 0)"
proof -
  have zero: "calculate_ghi_for_tilt (Some df) t' M sky = 0" for t'
    using assms by (simp add: calculate_ghi_for_tilt_def)
  then have "\<forall>t\<in>{0..90}. calculate_ghi_for_tilt (Some df) (real_of_int t) M sky = 0"
    by simp
  from find_optimal_tilt_constant [OF this] zero show ?thesis
    by simp
qed

theorem C3_empty_period_witness:
  "filter (\<lambda>r. \<not> (dhi_col ''cloudy'' r = 0 \<and> dni_col ''cloudy'' r = 0))
     (filter (\<lambda>r. isin (Month r) [13]) [sample_row 1 5 7, sample_row 12 0 3]) = [] \<and>
   calculate_ghi_for_tilt (Some [sample_row 1 5 7, sample_row 12 0 3]) 30 [13] ''cloudy'' = 0 \<and>
   find_optimal_tilt (Some [sample_row 1 5 7, sample_row 12 0 3]) [13] ''cloudy'' = (0, 0)"
  using C3_empty_period [of "''cloudy''" "[13]" "[sample_row 1 5 7, sample_row 12 0 3]" 30]
  by (simp add: isin_def sample_row_def)

text \<open>
  C2, as amended. \<^verbatim>\<open>find_optimal_tilt\<close> scans the integer tilts 0 to 90 in ascending
  order and replaces the incumbent only on a strictly greater GHI. Provided at least one
  of the 91 candidates has a GHI strictly greater than the initial value \<open>-1\<close> of
  \<^verbatim>\<open>max_ghi\<close>, it returns a tilt in 0..90 together with the GHI of that tilt, this
  GHI is the maximum over the 91 candidates, and the tilt is the smallest candidate that
  attains it.
\<close>

theorem C2_least_maximiser:
  assumes "\<exists>t\<in>{0..90}. calculate_ghi_for_tilt data (real_of_int t) M sky > -1"
  shows "case find_optimal_tilt data M sky of
           (best_tilt, max_ghi) \<Rightarrow>
             best_tilt \<in> {0..90} \<and>
             max_ghi = calculate_ghi_for_tilt data (real_of_int best_tilt) M sky \<and>
             (\<forall>t\<in>{0..90}. calculate_ghi_for_tilt data (real_of_int t) M sky \<le> max_ghi) \<and>
             (\<forall>t\<in>{0..90}. calculate_ghi_for_tilt data (real_of_int t) M sky = max_ghi
                            \<longrightarrow> best_tilt \<le> t)"
  using find_optimal_tilt_invariant [of data M sky] assms
  by (cases "find_optimal_tilt data M sky") (simp split: if_splits)

theorem C2_least_maximiser_witness:
  "(\<exists>t\<in>{0..90}. calculate_ghi_for_tilt (Some [sample_row 1 5 0]) (real_of_int t) [1] ''cloudy'' > -1) \<and>
   (case find_optimal_tilt (Some [sample_row 1 5 0]) [1] ''cloudy'' of
      (best_tilt, max_ghi) \<Rightarrow>
        best_tilt \<in> {0..90} \<and>
        max_ghi = calculate_ghi_for_tilt (Some [sample_row 1 5 0]) (real_of_int best_tilt) [1] ''cloudy'' \<and>
        (\<forall>t\<in>{0..90}. calculate_ghi_for_tilt (Some [sample_row 1 5 0]) (real_of_int t) [1] ''cloudy'' \<le> max_ghi) \<and>
        (\<forall>t\<in>{0..90}. calculate_ghi_for_tilt (Some [sample_row 1 5 0]) (real_of_int t) [1] ''cloudy'' = max_ghi
                       \<longrightarrow> best_tilt \<le> t))"
proof -
  have h: "\<exists>t\<in>{0..90}. calculate_ghi_for_tilt (Some [sample_row 1 5 0]) (real_of_int t) [1] ''cloudy'' > -1"
    by (rule bexI [of _ 0]) (simp_all add: sample_row_ghi)
  from h C2_least_maximiser [OF h] show ?thesis
    by (rule conjI)
qed

text \<open>
  Without that proviso the statement fails: on a dataset whose only June row has a
  clear-sky diffuse irradiance of \<open>-5\<close> and no direct irradiance, every candidate has
  GHI \<open>-5\<close>, no candidate improves on \<open>-1\<close>, and the result is the initial pair
  \<open>(-1, -1)\<close>: the tilt is no candidate and the GHI is not the GHI of that tilt.
\<close>

lemma negative_row_ghi:
  "calculate_ghi_for_tilt (Some [sample_row 6 (-5) 0]) t [6] ''clear'' = -5"
  by (simp add: calculate_ghi_for_tilt_rows hourly_output_def direct_contribution_def
        sample_row_def isin_def dhi_col_def dni_col_def)

theorem C2_counterexample:
  "fst (find_optimal_tilt (Some [sample_row 6 (-5) 0]) [6] ''clear'') \<notin> {0..90} \<and>
   snd (find_optimal_tilt (Some [sample_row 6 (-5) 0]) [6] ''clear'') \<noteq>
     calculate_ghi_for_tilt (Some [sample_row 6 (-5) 0])
       (real_of_int (fst (find_optimal_tilt (Some [sample_row 6 (-5) 0]) [6] ''clear''))) [6] ''clear''"
proof -
  have "find_optimal_tilt (Some [sample_row 6 (-5) 0]) [6] ''clear'' = (-1, -1)"
    by (rule find_optimal_tilt_sentinel) (simp add: negative_row_ghi)
  then show ?thesis
    by (simp add: negative_row_ghi)
qed

text \<open>
  C7, as amended. The incumbent of \<^verbatim>\<open>find_optimal_tilt\<close> is initialised with the fixed
  pair \<open>(-1, -1)\<close>. Whenever at least one of the 91 candidates has a GHI strictly
  greater than \<open>-1\<close>, the returned tilt is an integer in 0..90; when no candidate
  has, the initial pair \<open>(-1, -1)\<close> is returned.
\<close>

theorem C7_tilt_in_search_domain:
  "((\<exists>t\<in>{0..90}. calculate_ghi_for_tilt data (real_of_int t) M sky > -1) \<longrightarrow>
      0 \<le> fst (find_optimal_tilt data M sky) \<and> fst (find_optimal_tilt data M sky) \<le> 90) \<and>
   (\<not> (\<exists>t\<in>{0..90}. calculate_ghi_for_tilt data (real_of_int t) M sky > -1) \<longrightarrow>
      find_optimal_tilt data M sky = (-1, -1))"
proof (intro conjI impI)
  assume "\<exists>t\<in>{0..90}. calculate_ghi_for_tilt data (real_of_int t) M sky > -1"
  from find_optimal_tilt_improved(1) [OF this]
  show "0 \<le> fst (find_optimal_tilt data M sky)" and "fst (find_optimal_tilt data M sky) \<le> 90"
    by simp_all
next
  assume "\<not> (\<exists>t\<in>{0..90}. calculate_ghi_for_tilt data (real_of_int t) M sky > -1)"
  then have "\<forall>t\<in>{0..90}. calculate_ghi_for_tilt data (real_of_int t) M sky \<le> -1"
    by (simp add: not_less)
  then show "find_optimal_tilt data M sky = (-1, -1)"
    by (rule find_optimal_tilt_sentinel)
qed

text \<open>
  The first case covers every loaded dataset without negative irradiance values in the
  selected columns: its GHI is never negative.
\<close>

lemma nonnegative_rows_ghi:
  assumes "\<forall>r\<in>set df. 0 \<le> dhi_col sky r \<and> 0 \<le> dni_col sky r"
  shows "0 \<le> calculate_ghi_for_tilt (Some df) t M sky"
proof -
  have "0 \<le> hourly_output t sky r" if "r \<in> set df" for r
    using assms that by (simp add: hourly_output_def direct_contribution_def)
  then show ?thesis
    unfolding calculate_ghi_for_tilt_rows by (intro sum_list_nonneg) auto
qed

lemma nonnegative_rows_improve:
  assumes "\<forall>r\<in>set df. 0 \<le> dhi_col sky r \<and> 0 \<le> dni_col sky r"
  shows "\<exists>t\<in>{0..90}. calculate_ghi_for_tilt (Some df) (real_of_int t) M sky > -1"
proof -
  have "0 \<le> calculate_ghi_for_tilt (Some df) (real_of_int 0) M sky"
    by (rule nonnegative_rows_ghi [OF assms])
  then have "-1 < calculate_ghi_for_tilt (Some df) (real_of_int 0) M sky"
    by simp
  moreover have "(0::int) \<in> {0..90}"
    by simp
  ultimately show ?thesis
    by (rule bexI)
qed

text \<open>
  A dataset on which every candidate has the GHI \<open>-2\<close>: the returned tilt is \<open>-1\<close>,
  outside the search domain.
\<close>

lemma dark_rows_ghi:
  "calculate_ghi_for_tilt (Some [sample_row 1 (-2) 0]) t [1] ''cloudy'' = -2"
  by (simp add: calculate_ghi_for_tilt_rows hourly_output_def direct_contribution_def
        sample_row_def isin_def dhi_col_def dni_col_def)

theorem C7_counterexample:
  "find_optimal_tilt (Some [sample_row 1 (-2) 0]) [1] ''cloudy'' = (-1, -1) \<and>
   \<not> (0 \<le> fst (find_optimal_tilt (Some [sample_row 1 (-2) 0]) [1] ''cloudy'') \<and>
      fst (find_optimal_tilt (Some [sample_row 1 (-2) 0]) [1] ''cloudy'') \<le> 90)"
proof -
  have "find_optimal_tilt (Some [sample_row 1 (-2) 0]) [1] ''cloudy'' = (-1, -1)"
    by (rule find_optimal_tilt_sentinel) (simp add: dark_rows_ghi)
  then show ?thesis
    by simp
qed

theorem C7_tilt_in_search_domain_witness:
  "(\<exists>t\<in>{0..90}. calculate_ghi_for_tilt (Some [sample_row 1 5 0]) (real_of_int t) [1] ''cloudy'' > -1) \<and>
   0 \<le> fst (find_optimal_tilt (Some [sample_row 1 5 0]) [1] ''cloudy'') \<and>
   fst (find_optimal_tilt (Some [sample_row 1 5 0]) [1] ''cloudy'') \<le> 90 \<and>
   \<not> (\<exists>t\<in>{0..90}. calculate_ghi_for_tilt (Some [sample_row 1 (-2) 0]) (real_of_int t) [1] ''cloudy'' > -1) \<and>
   find_optimal_tilt (Some [sample_row 1 (-2) 0]) [1] ''cloudy'' = (-1, -1)"
proof -
  have h1: "\<exists>t\<in>{0..90}. calculate_ghi_for_tilt (Some [sample_row 1 5 0]) (real_of_int t) [1] ''cloudy'' > -1"
    by (rule bexI [of _ 0]) (simp_all add: sample_row_ghi)
  have h2: "\<not> (\<exists>t\<in>{0..90}. calculate_ghi_for_tilt (Some [sample_row 1 (-2) 0]) (real_of_int t) [1] ''cloudy'' > -1)"
    by (simp add: dark_rows_ghi)
  from h1 h2
    C7_tilt_in_search_domain [of "Some [sample_row 1 5 0]" "[1]" "''cloudy''"]
    C7_tilt_in_search_domain [of "Some [sample_row 1 (-2) 0]" "[1]" "''cloudy''"]
  show ?thesis
    by blast
qed

section \<open>Claims about the sliding window\<close>

text \<open>
  The comprehension of the source and the formula of the specification list the same
  months, for every start month and every window size.
\<close>

lemma months_in_window_spec: "months_in_window i W = window_months_spec i W"
  by (auto simp: months_in_window_def window_months_spec_def list_eq_iff_nth_eq)

lemma months_in_window_nonempty: "1 \<le> W \<Longrightarrow> months_in_window i W \<noteq> []"
  by (simp add: months_in_window_def)

lemma month_names_total:
  assumes "m \<in> {1..12}"
  shows "\<exists>name. month_names m = Some name"
proof -
  from assms have "m = 1 \<or> m = 2 \<or> m = 3 \<or> m = 4 \<or> m = 5 \<or> m = 6 \<or> m = 7 \<or> m = 8 \<or>
      m = 9 \<or> m = 10 \<or> m = 11 \<or> m = 12"
    by (simp add: atLeastAtMost_iff) presburger
  then show ?thesis
    by (auto simp: month_names_def)
qed

lemma wrapped_month: "(m - 1) mod 12 + 1 \<in> {1..12::int}"
  by simp

lemma window_ends_are_months:
  assumes "1 \<le> W"
  shows "hd (months_in_window i W) \<in> {1..12}" and "last (months_in_window i W) \<in> {1..12}"
proof -
  from assms have ne: "[i..i + W - 1] \<noteq> []"
    by simp
  show "hd (months_in_window i W) \<in> {1..12}"
    unfolding months_in_window_def hd_map [OF ne] by (rule wrapped_month)
  show "last (months_in_window i W) \<in> {1..12}"
    unfolding months_in_window_def last_map [OF ne] by (rule wrapped_month)
qed

lemma window_row_ok:
  assumes "1 \<le> W"
  shows "window_row data W sky i =
           Inr (the (month_names (hd (months_in_window i W))) @ ''-'' @
                the (month_names (last (months_in_window i W))),
                fst (find_optimal_tilt data (months_in_window i W) sky))"
proof -
  obtain m ms where ms: "months_in_window i W = m # ms"
    using months_in_window_nonempty [OF assms, of i] by (cases "months_in_window i W") auto
  obtain s where s: "month_names (hd (months_in_window i W)) = Some s"
    using month_names_total [OF window_ends_are_months(1) [OF assms]] by blast
  obtain e where e: "month_names (last (months_in_window i W)) = Some e"
    using month_names_total [OF window_ends_are_months(2) [OF assms]] by blast
  from s e ms show ?thesis
    unfolding window_row_def Let_def first_item_def last_item_def lookup_name_def
    by (simp del: last.simps)
qed

lemma sliding_window_loop_ok:
  assumes "\<And>i. window_row data W sky i = Inr (f i)"
  shows "sliding_window_loop data W sky starts results = Inr (results @ map f starts)"
  by (induction starts arbitrary: results) (simp_all add: assms)

lemma sliding_window_loop_first_error:
  "window_row data W sky i = Inl e \<Longrightarrow>
     sliding_window_loop data W sky (i # rest) results = Inl e"
  by simp

lemma window_11_3: "window_months_spec 11 3 = [11, 12, 1]"
  by (simp add: window_months_spec_def upto_rec1 [of 0 2] upto_rec1 [of 1 2])

text \<open>
  C6, as amended. For every window size \<open>W \<ge> 1\<close>, \<^verbatim>\<open>analyze_sliding_window\<close> returns
  12 rows in ascending order of the start month \<open>i = 1, \<dots>, 12\<close>; row \<open>i\<close> is labelled
  with the short names of the first and the last month of the window
  \<open>((i + k - 1) mod 12) + 1\<close>, \<open>k = 0, \<dots>, W - 1\<close>, joined by a hyphen, and holds the tilt
  that \<^verbatim>\<open>find_optimal_tilt\<close> returns for exactly these months. For \<open>W = 3\<close> the
  window of start month 11 is 11, 12, 1 and its label is \<^verbatim>\<open>Nov-Jan\<close>.
\<close>

theorem C6_sliding_window:
  assumes "1 \<le> W"
  shows "\<exists>rows. analyze_sliding_window data W sky = Inr rows \<and> length rows = 12 \<and>
           (\<forall>i\<in>{1..12}. \<exists>first_name last_name.
              month_names (hd (window_months_spec i W)) = Some first_name \<and>
              month_names (last (window_months_spec i W)) = Some last_name \<and>
              rows ! nat (i - 1) =
                (first_name @ ''-'' @ last_name,
                 fst (find_optimal_tilt data (window_months_spec i W) sky))) \<and>
           (W = 3 \<longrightarrow> window_months_spec 11 W = [11, 12, 1] \<and> fst (rows ! 10) = ''Nov-Jan'')"
proof -
  let ?f = "\<lambda>i. (the (month_names (hd (months_in_window i W))) @ ''-'' @
                  the (month_names (last (months_in_window i W))),
                  fst (find_optimal_tilt data (months_in_window i W) sky))"
  let ?rows = "map ?f [1..12]"
  have run: "analyze_sliding_window data W sky = Inr ?rows"
    unfolding analyze_sliding_window_def
    using sliding_window_loop_ok [of data W sky ?f "[1..12]" "[]", OF window_row_ok [OF assms]]
    by simp
  have len: "length ?rows = 12"
    by simp
  have nth: "?rows ! nat (i - 1) = ?f i" if "i \<in> {1..12}" for i
  proof -
    from that have "[1..12] ! nat (i - 1) = 1 + int (nat (i - 1))"
      by (intro nth_upto) simp
    with that have "[1..12] ! nat (i - 1) = i"
      by simp
    moreover from that have "nat (i - 1) < length [1..12::int]"
      by auto
    ultimately show ?thesis
      by (simp only: nth_map)
  qed
  have each: "\<exists>first_name last_name.
              month_names (hd (window_months_spec i W)) = Some first_name \<and>
              month_names (last (window_months_spec i W)) = Some last_name \<and>
              ?rows ! nat (i - 1) =
                (first_name @ ''-'' @ last_name,
                 fst (find_optimal_tilt data (window_months_spec i W) sky))"
    if i: "i \<in> {1..12}" for i
  proof -
    obtain s where s: "month_names (hd (months_in_window i W)) = Some s"
      using month_names_total [OF window_ends_are_months(1) [OF assms]] by blast
    obtain e where e: "month_names (last (months_in_window i W)) = Some e"
      using month_names_total [OF window_ends_are_months(2) [OF assms]] by blast
    from s e nth [OF i] show ?thesis
      unfolding months_in_window_spec by simp
  qed
  have nov_jan: "window_months_spec 11 W = [11, 12, 1] \<and> fst (?rows ! 10) = ''Nov-Jan''"
    if "W = 3"
  proof -
    have "?rows ! nat (11 - 1) = ?f 11"
      by (rule nth) simp
    then have "?rows ! 10 = ?f 11"
      by simp
    with that show ?thesis
      by (simp add: months_in_window_spec window_11_3 month_names_def)
  qed
  from run len each nov_jan show ?thesis
    by blast
qed

theorem C6_sliding_window_witness:
  "(1::int) \<le> 3 \<and>
   (\<exists>rows. analyze_sliding_window (Some [sample_row 1 5 0]) 3 ''cloudy'' = Inr rows \<and>
      length rows = 12 \<and>
      window_months_spec 11 3 = [11, 12, 1] \<and> fst (rows ! 10) = ''Nov-Jan'')"
proof -
  have h: "(1::int) \<le> 3"
    by simp
  from C6_sliding_window [OF h, of "Some [sample_row 1 5 0]" "''cloudy''"] h show ?thesis
    by blast
qed

text \<open>
  For the window size 0 the list of months is empty and \<^verbatim>\<open>months_in_window[0]\<close>
  raises \<^verbatim>\<open>IndexError\<close> in the first iteration: no rows are returned.
\<close>

theorem C6_counterexample:
  "analyze_sliding_window (Some [sample_row 1 5 0]) 0 ''cloudy'' = Inl IndexError"
  by (simp add: analyze_sliding_window_def upto_rec1 [of 1 12] window_row_def
        months_in_window_def first_item_def)

section \<open>Claims about side effects\<close>

text \<open>
  On a loaded dataset the method returns what the function on the rows returns, and
  only adds frames to the heap.
\<close>

lemma method_unfolded:
  assumes "self_data self = Some df" and "df < next_ref h"
  shows "\<exists>h'. calculate_ghi_for_tilt_method self t M sky h =
                 (calculate_ghi_for_tilt (Some (frames h df)) t M sky, self, h') \<and>
              next_ref h \<le> next_ref h' \<and>
              (\<forall>q. q < next_ref h \<longrightarrow> frames h' q = frames h q)"
  using assms
  unfolding calculate_ghi_for_tilt_method_def calculate_ghi_for_tilt_def
    select_rows_def copy_frame_def new_frame_def Let_def
  by (simp add: Let_def)

text \<open>
  C8. A call of \<^verbatim>\<open>calculate_ghi_for_tilt\<close> leaves the analyzer object, its dataset and
  every DataFrame that existed before the call unchanged; its result is a function of
  the dataset, the tilt, the month list and the sky condition alone, and a second call
  with the same arguments returns the same value.
\<close>

theorem C8_calculation_is_pure:
  assumes "loaded self h"
  shows "case calculate_ghi_for_tilt_method self t M sky h of
           (v, self', h') \<Rightarrow>
             self' = self \<and> dataset self' h' = dataset self h \<and>
             (\<forall>q. q < next_ref h \<longrightarrow> frames h' q = frames h q) \<and>
             v = calculate_ghi_for_tilt (dataset self h) t M sky \<and>
             fst (calculate_ghi_for_tilt_method self' t M sky h') = v"
proof (cases "self_data self")
  case None
  then show ?thesis
    by (simp add: calculate_ghi_for_tilt_method_def dataset_def calculate_ghi_for_tilt_None)
next
  case (Some df)
  with assms have df: "df < next_ref h"
    by (simp add: loaded_def)
  from method_unfolded [OF Some df, of t M sky]
  obtain h' where run: "calculate_ghi_for_tilt_method self t M sky h =
        (calculate_ghi_for_tilt (Some (frames h df)) t M sky, self, h')"
    and grows: "next_ref h \<le> next_ref h'"
    and kept: "\<forall>q. q < next_ref h \<longrightarrow> frames h' q = frames h q"
    by blast
  from df kept have same: "frames h' df = frames h df"
    by simp
  from df grows have "df < next_ref h'"
    by simp
  from method_unfolded [OF Some this, of t M sky]
  have again: "fst (calculate_ghi_for_tilt_method self t M sky h') =
        calculate_ghi_for_tilt (Some (frames h' df)) t M sky"
    by auto
  from run kept same again Some show ?thesis
    by (simp add: dataset_def)
qed

theorem C8_calculation_is_pure_witness:
  "loaded sample_analyzer sample_heap \<and>
   (case calculate_ghi_for_tilt_method sample_analyzer 30 [1] ''cloudy'' sample_heap of
      (v, self', h') \<Rightarrow>
        self' = sample_analyzer \<and> dataset self' h' = dataset sample_analyzer sample_heap \<and>
        (\<forall>q. q < next_ref sample_heap \<longrightarrow> frames h' q = frames sample_heap q) \<and>
        v = calculate_ghi_for_tilt (dataset sample_analyzer sample_heap) 30 [1] ''cloudy'' \<and>
        fst (calculate_ghi_for_tilt_method self' 30 [1] ''cloudy'' h') = v)"
proof -
  have h: "loaded sample_analyzer sample_heap"
    by (simp add: loaded_def sample_analyzer_def sample_heap_def)
  from h C8_calculation_is_pure [OF h] show ?thesis
    by (rule conjI)
qed

section \<open>Rounding at given values\<close>

text \<open>
  A number whose absolute value, scaled by \<open>2 ^ k\<close>, lies between \<open>2 ^ 52\<close> and
  \<open>2 ^ 53\<close> is rounded at the unit \<open>1 / 2 ^ k\<close>.
\<close>

lemma float64_zero: "float64 0 = 0"
  by (simp add: float64_def)

lemma float64_scaled:
  assumes lo: "2 ^ 52 \<le> \<bar>x\<bar> * 2 ^ k" and hi: "\<bar>x\<bar> * 2 ^ k < 2 ^ 53"
  shows "float64 x = of_int (round_half_even (x * 2 ^ k)) / 2 ^ k"
proof -
  from lo have nz: "x \<noteq> 0"
    by auto
  then have pos: "0 < \<bar>x\<bar>"
    by simp
  have "log 2 (\<bar>x\<bar> * 2 ^ k) = log 2 \<bar>x\<bar> + real k"
    using pos by (simp add: log_mult log_nat_power)
  moreover have "52 \<le> log 2 (\<bar>x\<bar> * 2 ^ k)"
  proof -
    have "log 2 (2 ^ 52) \<le> log 2 (\<bar>x\<bar> * 2 ^ k)"
      using lo by (intro log_mono) simp_all
    moreover have "log 2 (2 ^ 52 :: real) = 52"
      by (subst log_nat_power) simp_all
    ultimately show ?thesis
      by (simp only:)
  qed
  moreover have "log 2 (\<bar>x\<bar> * 2 ^ k) < 53"
  proof -
    have "log 2 (\<bar>x\<bar> * 2 ^ k) < log 2 (2 ^ 53)"
      using hi pos by (intro log_less) simp_all
    moreover have "log 2 (2 ^ 53 :: real) = 53"
      by (subst log_nat_power) simp_all
    ultimately show ?thesis
      by (simp only:)
  qed
  ultimately have "\<lfloor>log 2 \<bar>x\<bar>\<rfloor> = 52 - int k"
    by (intro floor_unique) simp_all
  then have e: "\<lfloor>log 2 \<bar>x\<bar>\<rfloor> - 52 = - int k"
    by simp
  have p: "(2::real) powr (of_int (- int k)) = 1 / 2 ^ k"
    by (simp add: powr_minus powr_realpow divide_inverse)
  show ?thesis
    using nz unfolding float64_def Let_def e p by simp
qed

text \<open>The roundings that occur in the evaluated runs.\<close>

lemma float64_value_1: "float64 (1 / 10) = 3602879701896397 / 36028797018963968"
  by (subst float64_scaled [where k = 56]) (simp_all add: round_half_even_def Let_def)

lemma float64_value_2: "float64 (3602879701896397 / 36028797018963968) = 3602879701896397 / 36028797018963968"
  by (subst float64_scaled [where k = 56]) (simp_all add: round_half_even_def Let_def)

lemma float64_value_3: "float64 (3602879701896397 / 18014398509481984) = 3602879701896397 / 18014398509481984"
  by (subst float64_scaled [where k = 55]) (simp_all add: round_half_even_def Let_def)

lemma float64_value_4: "float64 (10808639105689191 / 36028797018963968) = 1351079888211149 / 4503599627370496"
  by (subst float64_scaled [where k = 54]) (simp_all add: round_half_even_def Let_def)

lemma float64_value_5: "float64 (2 / 5) = 3602879701896397 / 9007199254740992"
  by (subst float64_scaled [where k = 54]) (simp_all add: round_half_even_def Let_def)

lemma float64_value_6: "float64 (3602879701896397 / 9007199254740992) = 3602879701896397 / 9007199254740992"
  by (subst float64_scaled [where k = 54]) (simp_all add: round_half_even_def Let_def)

lemma float64_value_7: "float64 (1 / 2) = 1 / 2"
  by (subst float64_scaled [where k = 53]) (simp_all add: round_half_even_def Let_def)

lemma float64_value_8: "float64 (18014398509481985 / 36028797018963968) = 1 / 2"
  by (subst float64_scaled [where k = 53]) (simp_all add: round_half_even_def Let_def)

lemma float64_value_9: "float64 (5404319552844595 / 9007199254740992) = 5404319552844595 / 9007199254740992"
  by (subst float64_scaled [where k = 53]) (simp_all add: round_half_even_def Let_def)

lemma float64_value_10: "float64 (21617278211378381 / 36028797018963968) = 5404319552844595 / 9007199254740992"
  by (subst float64_scaled [where k = 53]) (simp_all add: round_half_even_def Let_def)

lemma float64_value_11: "float64 (10808639105689191 / 18014398509481984) = 1351079888211149 / 2251799813685248"
  by (subst float64_scaled [where k = 53]) (simp_all add: round_half_even_def Let_def)

lemma float64_value_12: "float64 (1351079888211149 / 2251799813685248) = 1351079888211149 / 2251799813685248"
  by (subst float64_scaled [where k = 53]) (simp_all add: round_half_even_def Let_def)

lemma float64_value_13: "float64 (3152519739159347 / 4503599627370496) = 3152519739159347 / 4503599627370496"
  by (subst float64_scaled [where k = 53]) (simp_all add: round_half_even_def Let_def)

lemma float64_value_14: "float64 (12610078956637389 / 18014398509481984) = 3152519739159347 / 4503599627370496"
  by (subst float64_scaled [where k = 53]) (simp_all add: round_half_even_def Let_def)

lemma float64_value_15: "float64 (6305039478318695 / 9007199254740992) = 6305039478318695 / 9007199254740992"
  by (subst float64_scaled [where k = 53]) (simp_all add: round_half_even_def Let_def)

lemmas float64_values =
  float64_value_1
  float64_value_2
  float64_value_3
  float64_value_4
  float64_value_5
  float64_value_6
  float64_value_7
  float64_value_8
  float64_value_9
  float64_value_10
  float64_value_11
  float64_value_12
  float64_value_13
  float64_value_14
  float64_value_15

section \<open>The float64 computation, row by row\<close>

lemma vectorised_ghi_output_f64:
  "map2 fadd (map (dhi_col sky) rows)
     (map2 (\<lambda>c d. if c > 0 then fmul c d else 0)
        (map C (map (\<lambda>d. fsub (fsub (R (float64 LATITUDE_DEGREES)) (R tilt)) d)
                    (map Declination_Angle_Rad rows)))
        (map (dni_col sky) rows))
   = map (hourly_output_f64 R C tilt sky) rows"
  by (induction rows) (simp_all add: hourly_output_f64_def Let_def)

lemma fadd_zero_zero: "fadd 0 0 = 0"
  by (simp add: fadd_def float64_zero)

lemma fmul_zero: "fmul c 0 = 0"
  by (simp add: fmul_def float64_zero)

lemma np_sum_Nil: "np_sum [] = 0"
  by (simp add: np_sum_def fadd_zero_zero)

lemma hourly_output_f64_dark:
  "dhi_col sky r = 0 \<Longrightarrow> dni_col sky r = 0 \<Longrightarrow> hourly_output_f64 R C tilt sky r = 0"
  by (simp add: hourly_output_f64_def Let_def fmul_zero fadd_zero_zero)

lemma calculate_ghi_for_tilt_f64_terms:
  "calculate_ghi_for_tilt_f64 R C (Some df) tilt months sky =
     np_sum (map (hourly_output_f64 R C tilt sky)
       (filter (\<lambda>r. \<not> (dhi_col sky r = 0 \<and> dni_col sky r = 0))
          (filter (\<lambda>r. isin (Month r) months) df)))"
  unfolding calculate_ghi_for_tilt_f64_def Let_def vectorised_ghi_output_f64
  by (simp add: np_sum_Nil)

lemma calculate_ghi_all_rows_f64_terms:
  "calculate_ghi_all_rows_f64 R C (Some df) tilt months sky =
     np_sum (map (hourly_output_f64 R C tilt sky) (filter (\<lambda>r. isin (Month r) months) df))"
  unfolding calculate_ghi_all_rows_f64_def Let_def vectorised_ghi_output_f64
  by simp


lemmas f64_evaluation =
  calculate_ghi_for_tilt_f64_terms calculate_ghi_all_rows_f64_terms hourly_output_f64_def
  sample_row_def isin_def dhi_col_def dni_col_def Let_def fmul_zero fadd_def np_sum_def
  float64_zero float64_values

section \<open>The search loop over the float64 GHI\<close>









section \<open>Claims decided by rounding\<close>

text \<open>
  C5, as amended. The exclusion before the summation removes only rows whose output
  is exactly 0: with the exclusion \<^verbatim>\<open>np.sum\<close> runs over the outputs of the
  month-filtered rows that have irradiance, in their order; without it, over the outputs
  of all month-filtered rows, and the output of every row whose diffuse and direct
  values for the selected sky condition are both zero is 0.
\<close>

theorem C5_excluded_terms_are_zero:
  "calculate_ghi_for_tilt_f64 R C (Some df) t M sky =
     np_sum (map (hourly_output_f64 R C t sky)
       (filter (\<lambda>r. \<not> (dhi_col sky r = 0 \<and> dni_col sky r = 0))
          (filter (\<lambda>r. isin (Month r) M) df))) \<and>
   calculate_ghi_all_rows_f64 R C (Some df) t M sky =
     np_sum (map (hourly_output_f64 R C t sky) (filter (\<lambda>r. isin (Month r) M) df)) \<and>
   (\<forall>r\<in>set (filter (\<lambda>r. isin (Month r) M) df).
      dhi_col sky r = 0 \<and> dni_col sky r = 0 \<longrightarrow> hourly_output_f64 R C t sky r = 0)"
  by (simp add: calculate_ghi_for_tilt_f64_terms calculate_ghi_all_rows_f64_terms
        hourly_output_f64_dark)

theorem C5_excluded_terms_are_zero_witness:
  "sample_row 1 0 0 \<in> set (filter (\<lambda>r. isin (Month r) [1])
                              [sample_row 1 0 0, sample_row 1 (float64 (1 / 10)) 0]) \<and>
   dhi_col ''cloudy'' (sample_row 1 0 0) = 0 \<and> dni_col ''cloudy'' (sample_row 1 0 0) = 0 \<and>
   hourly_output_f64 rounded_radians rounded_cos 30 ''cloudy'' (sample_row 1 0 0) = 0 \<and>
   calculate_ghi_for_tilt_f64 rounded_radians rounded_cos
     (Some [sample_row 1 0 0, sample_row 1 (float64 (1 / 10)) 0]) 30 [1] ''cloudy'' =
     np_sum (map (hourly_output_f64 rounded_radians rounded_cos 30 ''cloudy'')
       (filter (\<lambda>r. \<not> (dhi_col ''cloudy'' r = 0 \<and> dni_col ''cloudy'' r = 0))
          (filter (\<lambda>r. isin (Month r) [1])
             [sample_row 1 0 0, sample_row 1 (float64 (1 / 10)) 0])))"
proof -
  have h: "sample_row 1 0 0 \<in> set (filter (\<lambda>r. isin (Month r) [1])
                              [sample_row 1 0 0, sample_row 1 (float64 (1 / 10)) 0])"
    and z: "dhi_col ''cloudy'' (sample_row 1 0 0) = 0" "dni_col ''cloudy'' (sample_row 1 0 0) = 0"
    by (simp_all add: sample_row_def isin_def dhi_col_def dni_col_def)
  from h z C5_excluded_terms_are_zero [of rounded_radians rounded_cos
      "[sample_row 1 0 0, sample_row 1 (float64 (1 / 10)) 0]" 30 "[1]" "''cloudy''"]
  show ?thesis
    by blast
qed

text \<open>
  The two results are not always identical, since the grouping of the additions of
  \<^verbatim>\<open>np.sum\<close> depends on the length of the array: on nine January rows, six of them
  dark, the function returns 0.6000000000000001 where the sum over all nine outputs is
  0.6.
\<close>

theorem C5_counterexample:
  "calculate_ghi_for_tilt_f64 rounded_radians rounded_cos mostly_dark_hours 30 [1] ''cloudy''
     = 1351079888211149 / 2251799813685248 \<and>
   calculate_ghi_all_rows_f64 rounded_radians rounded_cos mostly_dark_hours 30 [1] ''cloudy''
     = 5404319552844595 / 9007199254740992 \<and>
   calculate_ghi_for_tilt_f64 rounded_radians rounded_cos mostly_dark_hours 30 [1] ''cloudy''
     \<noteq> calculate_ghi_all_rows_f64 rounded_radians rounded_cos mostly_dark_hours 30 [1] ''cloudy''"
proof -
  have a: "calculate_ghi_for_tilt_f64 rounded_radians rounded_cos mostly_dark_hours 30 [1] ''cloudy''
     = 1351079888211149 / 2251799813685248"
    by (simp add: mostly_dark_hours_def f64_evaluation)
  have b: "calculate_ghi_all_rows_f64 rounded_radians rounded_cos mostly_dark_hours 30 [1] ''cloudy''
     = 5404319552844595 / 9007199254740992"
    by (simp add: mostly_dark_hours_def f64_evaluation unrolled_sum_def)
  show ?thesis
    unfolding a b by simp
qed





end
